theory Spec2Isabelle
  imports Main "HOL-Library.Word"
begin

unbundle bit_operations_syntax

section \<open>The snippet storage service (package snippets, main.go)\<close>

text \<open>
  The service stores byte sequences in the App Engine datastore under the SHA-256 of
  their content and reads them back through memcache. The two handlers of main.go,
  \<^verbatim>\<open>getSnippets\<close> and \<^verbatim>\<open>postSnippets\<close>, are embedded as state-passing functions
  over a \<open>world\<close> that holds the two backends. The packages the handlers call
  (\<^verbatim>\<open>crypto/sha256\<close>, \<^verbatim>\<open>fmt\<close>, \<^verbatim>\<open>net/http\<close>, \<^verbatim>\<open>appengine/datastore\<close>,
  \<^verbatim>\<open>appengine/memcache\<close>) are modelled first, each as far as the handlers use it.
\<close>

type_synonym byte = "8 word"
type_synonym uint32 = "32 word"

subsection \<open>crypto/sha256: \<^verbatim>\<open>sha256.Sum256\<close> (FIPS 180-4)\<close>

text \<open>The round constants (the first is \<open>0x428a2f98\<close>) and the initial hash value (from \<open>0x6a09e667\<close>).\<close>

definition K256 :: "uint32 list" where
  "K256 = [
    1116352408, 1899447441, 3049323471, 3921009573, 961987163, 1508970993,
    2453635748, 2870763221, 3624381080, 310598401, 607225278, 1426881987,
    1925078388, 2162078206, 2614888103, 3248222580, 3835390401, 4022224774,
    264347078, 604807628, 770255983, 1249150122, 1555081692, 1996064986,
    2554220882, 2821834349, 2952996808, 3210313671, 3336571891, 3584528711,
    113926993, 338241895, 666307205, 773529912, 1294757372, 1396182291,
    1695183700, 1986661051, 2177026350, 2456956037, 2730485921, 2820302411,
    3259730800, 3345764771, 3516065817, 3600352804, 4094571909, 275423344,
    430227734, 506948616, 659060556, 883997877, 958139571, 1322822218,
    1537002063, 1747873779, 1955562222, 2024104815, 2227730452, 2361852424,
    2428436474, 2756734187, 3204031479, 3329325298]"

definition init256 :: "uint32 list" where
  "init256 = [1779033703, 3144134277, 1013904242, 2773480762,
              1359893119, 2600822924, 528734635, 1541459225]"

definition rotr :: "nat \<Rightarrow> uint32 \<Rightarrow> uint32" where
  "rotr n x = drop_bit n x OR push_bit (32 - n) x"

text \<open>A big-endian 32-bit word from (the first) four bytes.\<close>

definition be32 :: "byte list \<Rightarrow> uint32" where
  "be32 bs = foldl (\<lambda>a b. push_bit 8 a OR ucast b) 0 (take 4 bs)"

text \<open>\<open>chunks k n xs\<close>: the first \<open>k\<close> pieces of \<open>xs\<close>, each \<open>n\<close> long.\<close>

fun chunks :: "nat \<Rightarrow> nat \<Rightarrow> 'a list \<Rightarrow> 'a list list" where
  "chunks 0 n xs = []"
| "chunks (Suc k) n xs = take n xs # chunks k n (drop n xs)"

text \<open>The message schedule: \<open>schedule 48\<close> extends the 16 words of a block to 64.\<close>

fun schedule :: "nat \<Rightarrow> uint32 list \<Rightarrow> uint32 list" where
  "schedule 0 w = w"
| "schedule (Suc k) w =
     (let i = length w;
          v1 = w ! (i - 2);
          v2 = w ! (i - 15);
          t1 = rotr 17 v1 XOR rotr 19 v1 XOR drop_bit 10 v1;
          t2 = rotr 7 v2 XOR rotr 18 v2 XOR drop_bit 3 v2
      in schedule k (w @ [t1 + w ! (i - 7) + t2 + w ! (i - 16)]))"

fun round256 :: "uint32 list \<Rightarrow> uint32 \<times> uint32 \<Rightarrow> uint32 list" where
  "round256 [a, b, c, d, e, f, g, h] (k, w) =
     (let t1 = h + (rotr 6 e XOR rotr 11 e XOR rotr 25 e) + ((e AND f) XOR (NOT e AND g)) + k + w;
          t2 = (rotr 2 a XOR rotr 13 a XOR rotr 22 a) + ((a AND b) XOR (a AND c) XOR (b AND c))
      in [t1 + t2, a, b, c, d + t1, e, f, g])"
| "round256 hs _ = hs"

definition block256 :: "uint32 list \<Rightarrow> byte list \<Rightarrow> uint32 list" where
  "block256 hs p =
     (let w = schedule 48 (map be32 (chunks 16 4 p))
      in map2 (+) hs (foldl round256 hs (zip K256 w)))"

text \<open>Padding: one byte \<open>0x80\<close>, zeros up to 56 modulo 64, the bit length in 8 bytes.\<close>

definition pad256 :: "byte list \<Rightarrow> byte list" where
  "pad256 m =
     (let n = length m;
          z = (119 - n mod 64) mod 64;
          bits = (word_of_nat (n * 8) :: 64 word)
      in m @ [0x80] @ replicate z 0 @ map (\<lambda>i. ucast (drop_bit (8 * (7 - i)) bits)) [0..<8])"

text \<open>\<^verbatim>\<open>func Sum256(data []byte) [Size]byte\<close>, the array as the list of its 32 bytes.\<close>

definition Sum256 :: "byte list \<Rightarrow> byte list" where
  "Sum256 m =
     (let p = pad256 m;
          hs = foldl block256 init256 (chunks (length p div 64) 64 p)
      in concat (map (\<lambda>h. map (\<lambda>i. ucast (drop_bit (8 * (3 - i)) h)) [0..<4]) hs))"

subsection \<open>fmt: the verb \<^verbatim>\<open>%x\<close> on a byte array\<close>

definition ldigits :: string where
  "ldigits = ''0123456789abcdef''"

text \<open>\<^verbatim>\<open>fmt.Sprintf("%x", b)\<close>: two lowercase hexadecimal digits for each byte.\<close>

definition Sprintf_x :: "byte list \<Rightarrow> string" where
  "Sprintf_x bs = concat (map (\<lambda>b. [ldigits ! (unat b div 16), ldigits ! (unat b mod 16)]) bs)"

subsection \<open>Constants and the stored entity\<close>

definition maxContentSizeInBytes :: nat where
  "maxContentSizeInBytes = 10 * 1024"

definition kindName :: string where
  "kindName = ''Snippet''"

definition testForm :: string where
  \<open>testForm =
     ''<!DOCTYPE html>\<newline>'' @
     ''<script>\<newline>'' @
     ''window.addEventListener('load', _ => {\<newline>'' @
     ''  document.getElementById('submit-button').addEventListener('click', _ => {\<newline>'' @
     ''    let content = document.getElementById('content').value;\<newline>'' @
     ''    fetch('/', {\<newline>'' @
     ''      method: 'POST',\<newline>'' @
     ''      body:   content,\<newline>'' @
     ''    }).then(response => {\<newline>'' @
     ''      console.log('status:', response.status);\<newline>'' @
     ''      return response.text();\<newline>'' @
     ''    }).then(key => {\<newline>'' @
     ''      console.log('key:', key);\<newline>'' @
     ''    });\<newline>'' @
     ''  });\<newline>'' @
     ''});\<newline>'' @
     ''</script>\<newline>'' @
     ''<input id="content" type="text">\<newline>'' @
     ''<button id="submit-button">Submit</button>\<newline>''\<close>

text \<open>\<^verbatim>\<open>time.Time\<close> as the nanoseconds since the zero time.\<close>

type_synonym time = nat

record Snippet =
  CreatedAt :: time
  Content :: "byte list"

text \<open>\<^verbatim>\<open>&Snippet{}\<close>: the zero value.\<close>

definition Snippet_zero :: Snippet where
  "Snippet_zero = \<lparr>CreatedAt = 0, Content = []\<rparr>"

subsection \<open>Errors\<close>

text \<open>
  The sentinel errors of the two App Engine packages that the handlers compare with, and
  \<open>ErrBackend\<close> for every other error a call may return, with its message.
\<close>

datatype error =
    ErrCacheMiss
  | ErrNoSuchEntity
  | ErrInvalidKey
  | ErrConcurrentTransaction
  | ErrBackend string

text \<open>\<^verbatim>\<open>err.Error()\<close>, what \<^verbatim>\<open>%v\<close> prints.\<close>

fun Error :: "error \<Rightarrow> string" where
  "Error ErrCacheMiss = ''memcache: cache miss''"
| "Error ErrNoSuchEntity = ''datastore: no such entity''"
| "Error ErrInvalidKey = ''datastore: invalid key''"
| "Error ErrConcurrentTransaction = ''datastore: concurrent transaction''"
| "Error (ErrBackend msg) = msg"

subsection \<open>The backends\<close>

text \<open>
  A datastore key as \<^verbatim>\<open>datastore.NewKey(ctx, kind, stringID, 0, nil)\<close> builds it: a kind and
  a name, no parent.
\<close>

type_synonym Key = "string \<times> string"

definition NewKey :: "string \<Rightarrow> string \<Rightarrow> Key" where
  "NewKey kind stringID = (kind, stringID)"

text \<open>
  The world outside the handlers: the entries of memcache, the entities of the datastore,
  the clock that \<^verbatim>\<open>time.Now()\<close> reads, whether the process is the development server, and
  \<open>faults\<close>, the outcome the environment has decided for each coming backend call: the
  next call takes the head, fails with the error there if there is one, and works as the
  backend should otherwise (also when the list is empty).
\<close>

record world =
  memcache :: "string \<rightharpoonup> Snippet"
  datastore :: "Key \<rightharpoonup> Snippet"
  faults :: "error option list"
  clock :: time
  devAppServer :: bool

definition next_fault :: "world \<Rightarrow> error option \<times> world" where
  "next_fault w =
     (case faults w of
        [] \<Rightarrow> (None, w)
      | f # fs \<Rightarrow> (f, w\<lparr>faults := fs\<rparr>))"

definition time_Now :: "world \<Rightarrow> time" where
  "time_Now w = clock w"

text \<open>\<^verbatim>\<open>memcache.Gob.Get(ctx, key, v)\<close>: the cached value, or \<^verbatim>\<open>ErrCacheMiss\<close>.\<close>

definition memcache_Get :: "string \<Rightarrow> world \<Rightarrow> (error + Snippet) \<times> world" where
  "memcache_Get k w =
     (case next_fault w of
        (Some err, w') \<Rightarrow> (Inl err, w')
      | (None, w') \<Rightarrow>
          (case memcache w' k of
             None \<Rightarrow> (Inl ErrCacheMiss, w')
           | Some v \<Rightarrow> (Inr v, w')))"

text \<open>\<^verbatim>\<open>memcache.Gob.Set(ctx, item)\<close>: writes the item unconditionally.\<close>

definition memcache_Set :: "string \<Rightarrow> Snippet \<Rightarrow> world \<Rightarrow> error option \<times> world" where
  "memcache_Set k v w =
     (case next_fault w of
        (Some err, w') \<Rightarrow> (Some err, w')
      | (None, w') \<Rightarrow> (None, w'\<lparr>memcache := (memcache w')(k \<mapsto> v)\<rparr>))"

text \<open>
  \<^verbatim>\<open>datastore.Get(ctx, key, dst)\<close> outside a transaction. A nil key is refused before any
  call is made.
\<close>

definition datastore_Get :: "Key option \<Rightarrow> world \<Rightarrow> (error + Snippet) \<times> world" where
  "datastore_Get key w =
     (case key of
        None \<Rightarrow> (Inl ErrInvalidKey, w)
      | Some k \<Rightarrow>
          (case next_fault w of
             (Some err, w') \<Rightarrow> (Inl err, w')
           | (None, w') \<Rightarrow>
               (case datastore w' k of
                  None \<Rightarrow> (Inl ErrNoSuchEntity, w')
                | Some v \<Rightarrow> (Inr v, w'))))"

text \<open>
  What the datastore keeps of an entity: a \<^verbatim>\<open>time.Time\<close> property is stored in
  microseconds, so the nanoseconds below are lost; memcache (gob) keeps them.
\<close>

definition datastore_save :: "Snippet \<Rightarrow> Snippet" where
  "datastore_save v = v\<lparr>CreatedAt := CreatedAt v div 1000 * 1000\<rparr>"

text \<open>
  Inside a transaction the datastore serves reads from the state the transaction began
  with and keeps the writes until the commit. \<open>touched\<close> are the keys read or written,
  the entities whose change by another request makes the commit fail.
\<close>

record txn =
  snapshot :: "Key \<rightharpoonup> Snippet"
  touched :: "Key list"
  writes :: "(Key \<times> Snippet) list"

definition tx_Get :: "Key option \<Rightarrow> txn \<Rightarrow> world \<Rightarrow> (error + Snippet) \<times> txn \<times> world" where
  "tx_Get key t w =
     (case key of
        None \<Rightarrow> (Inl ErrInvalidKey, t, w)
      | Some k \<Rightarrow>
          (case next_fault w of
             (Some err, w') \<Rightarrow> (Inl err, t, w')
           | (None, w') \<Rightarrow>
               (case snapshot t k of
                  None \<Rightarrow> (Inl ErrNoSuchEntity, t\<lparr>touched := k # touched t\<rparr>, w')
                | Some v \<Rightarrow> (Inr v, t\<lparr>touched := k # touched t\<rparr>, w'))))"

text \<open>\<^verbatim>\<open>datastore.Put(ctx, key, src)\<close> in a transaction: the key back, or nil and the error.\<close>

definition tx_Put :: "Key \<Rightarrow> Snippet \<Rightarrow> txn \<Rightarrow> world \<Rightarrow> (error + Key) \<times> txn \<times> world" where
  "tx_Put k v t w =
     (case next_fault w of
        (Some err, w') \<Rightarrow> (Inl err, t, w')
      | (None, w') \<Rightarrow>
          (Inr k, t\<lparr>touched := k # touched t, writes := writes t @ [(k, datastore_save v)]\<rparr>, w'))"

text \<open>
  The commit fails with \<^verbatim>\<open>ErrConcurrentTransaction\<close> when an entity the transaction touched
  is no longer what the transaction began with; otherwise the writes reach the datastore.
\<close>

definition commit :: "txn \<Rightarrow> world \<Rightarrow> error option \<times> world" where
  "commit t w =
     (case next_fault w of
        (Some err, w') \<Rightarrow> (Some err, w')
      | (None, w') \<Rightarrow>
          if list_ex (\<lambda>k. datastore w' k \<noteq> snapshot t k) (touched t)
          then (Some ErrConcurrentTransaction, w')
          else (None, w'\<lparr>datastore := fold (\<lambda>(k, v) m. m(k \<mapsto> v)) (writes t) (datastore w')\<rparr>))"

text \<open>
  The variables of \<^verbatim>\<open>postSnippets\<close> that its transaction function captures and assigns:
  \<^verbatim>\<open>s\<close>, \<^verbatim>\<open>created\<close> and \<^verbatim>\<open>key\<close>. Go captures them by reference, so what one run of the
  function assigns is what the next run and the code after the transaction find.
\<close>

record captured =
  var_s :: Snippet
  var_created :: bool
  var_key :: "Key option"

type_synonym txfunc = "captured \<Rightarrow> txn \<Rightarrow> world \<Rightarrow> error option \<times> captured \<times> txn \<times> world"

text \<open>
  One attempt (\<^verbatim>\<open>internal.RunTransactionOnce\<close>): begin, call \<open>f\<close>, roll back if it returns
  an error, commit otherwise. \<open>other\<close> is what the other requests do to the world while
  the attempt is open, after \<open>f\<close> has run and before the commit. The result says first
  whether the attempt ended with the sentinel \<^verbatim>\<open>ErrConcurrentTransaction\<close>: only a commit
  that the datastore refused for a concurrent transaction does. The errors of the begin
  call and of the calls that \<open>f\<close> makes are the errors of the service, never the sentinel,
  whatever they say.
\<close>

definition RunTransactionOnce ::
  "(world \<Rightarrow> world) \<Rightarrow> txfunc \<Rightarrow> captured \<Rightarrow> world \<Rightarrow>
     (bool \<times> error option) \<times> captured \<times> world" where
  "RunTransactionOnce other f v w =
     (case next_fault w of
        (Some err, w0) \<Rightarrow> ((False, Some err), v, w0)
      | (None, w0) \<Rightarrow>
          (case f v \<lparr>snapshot = datastore w0, touched = [], writes = []\<rparr> w0 of
             (Some err, v', t, w1) \<Rightarrow> ((False, Some err), v', other w1)
           | (None, v', t, w1) \<Rightarrow>
               (case commit t (other w1) of
                  (r, w2) \<Rightarrow> ((r = Some ErrConcurrentTransaction, r), v', w2))))"

text \<open>
  \<^verbatim>\<open>datastore.RunInTransaction(ctx, f, nil)\<close>: \<open>f\<close> is run again after an attempt whose
  commit failed with \<^verbatim>\<open>ErrConcurrentTransaction\<close>, three attempts in all when the options
  are nil; every other result of an attempt is returned at once.
\<close>

fun attempts :: "nat \<Rightarrow> (world \<Rightarrow> world) list \<Rightarrow> txfunc \<Rightarrow> captured \<Rightarrow> world \<Rightarrow>
    error option \<times> captured \<times> world" where
  "attempts 0 os f v w = (Some ErrConcurrentTransaction, v, w)"
| "attempts (Suc n) os f v w =
     (case RunTransactionOnce (case os of [] \<Rightarrow> id | other # _ \<Rightarrow> other) f v w of
        ((again, r), v', w') \<Rightarrow>
          if again then attempts n (tl os) f v' w'
          else (r, v', w'))"

text \<open>
  The request's context, \<^verbatim>\<open>appengine.NewContext(r)\<close>: the handle to the backends. It
  carries what the requests served at the same time do during each attempt of this
  request's transaction (nothing when the list is empty or used up).
\<close>

record Context =
  others :: "(world \<Rightarrow> world) list"

definition RunInTransaction ::
  "Context \<Rightarrow> txfunc \<Rightarrow> captured \<Rightarrow> world \<Rightarrow> error option \<times> captured \<times> world" where
  "RunInTransaction ctx f v w = attempts 3 (others ctx) f v w"

subsection \<open>net/http\<close>

definition StatusOK :: nat where "StatusOK = 200"
definition StatusCreated :: nat where "StatusCreated = 201"
definition StatusBadRequest :: nat where "StatusBadRequest = 400"
definition StatusNotFound :: nat where "StatusNotFound = 404"
definition StatusMethodNotAllowed :: nat where "StatusMethodNotAllowed = 405"
definition StatusInternalServerError :: nat where "StatusInternalServerError = 500"

fun StatusText :: "nat \<Rightarrow> string" where
  "StatusText code = (if code = 405 then ''Method Not Allowed'' else [])"

text \<open>\<^verbatim>\<open>[]uint8(str)\<close>: a Go string is its bytes.\<close>

definition bytes :: "string \<Rightarrow> byte list" where
  "bytes str = map (\<lambda>c. word_of_nat (of_char c)) str"

text \<open>
  A \<^verbatim>\<open>http.ResponseWriter\<close>: the header map, the status once it has been written, and
  the body written so far.
\<close>

record ResponseWriter =
  header :: "string \<rightharpoonup> string"
  status :: "nat option"
  written :: "byte list"

definition Header_Set :: "string \<Rightarrow> string \<Rightarrow> ResponseWriter \<Rightarrow> ResponseWriter" where
  "Header_Set k v rw = rw\<lparr>header := (header rw)(k \<mapsto> v)\<rparr>"

text \<open>Only the first \<^verbatim>\<open>WriteHeader\<close> counts.\<close>

definition WriteHeader :: "nat \<Rightarrow> ResponseWriter \<Rightarrow> ResponseWriter" where
  "WriteHeader code rw = (if status rw = None then rw\<lparr>status := Some code\<rparr> else rw)"

text \<open>A \<^verbatim>\<open>Write\<close> before any \<^verbatim>\<open>WriteHeader\<close> sends \<^verbatim>\<open>StatusOK\<close> first.\<close>

definition Write :: "byte list \<Rightarrow> ResponseWriter \<Rightarrow> ResponseWriter" where
  "Write bs rw = (let rw' = WriteHeader StatusOK rw in rw'\<lparr>written := written rw' @ bs\<rparr>)"

definition WriteString :: "string \<Rightarrow> ResponseWriter \<Rightarrow> ResponseWriter" where
  "WriteString str rw = Write (bytes str) rw"

text \<open>\<^verbatim>\<open>http.Error(w, error, code)\<close> and \<^verbatim>\<open>http.NotFound(w, r)\<close>.\<close>

definition http_Error :: "ResponseWriter \<Rightarrow> string \<Rightarrow> nat \<Rightarrow> ResponseWriter" where
  "http_Error rw msg code =
     WriteString (msg @ ''\<newline>'')
       (WriteHeader code
         (Header_Set ''X-Content-Type-Options'' ''nosniff''
           (Header_Set ''Content-Type'' ''text/plain; charset=utf-8'' rw)))"

definition http_NotFound :: "ResponseWriter \<Rightarrow> ResponseWriter" where
  "http_NotFound rw = http_Error rw ''404 page not found'' StatusNotFound"

text \<open>
  The request as the handlers read it: the method, \<^verbatim>\<open>r.URL.Path\<close>, and what
  \<^verbatim>\<open>ioutil.ReadAll(r.Body)\<close> returns.
\<close>

record Request =
  Method :: string
  URL_Path :: string
  Body :: "error + byte list"

subsection \<open>The handlers\<close>

definition getSnippetFromKey :: "string \<Rightarrow> world \<Rightarrow> (error + Snippet option) \<times> world" where
  "getSnippetFromKey keyName w =
     (case memcache_Get keyName w of
        (Inr s, w1) \<Rightarrow> (Inr (Some s), w1)
      | (Inl err, w1) \<Rightarrow>
          if err \<noteq> ErrCacheMiss then (Inl err, w1)
          else
            (let key = NewKey kindName keyName in
             case datastore_Get (Some key) w1 of
               (Inl err, w2) \<Rightarrow>
                 if err = ErrNoSuchEntity then (Inr None, w2) else (Inl err, w2)
             | (Inr s, w2) \<Rightarrow>
                 (case memcache_Set keyName s w2 of
                    (Some err, w3) \<Rightarrow> (Inl err, w3)
                  | (None, w3) \<Rightarrow> (Inr (Some s), w3))))"

definition getSnippets :: "ResponseWriter \<Rightarrow> Request \<Rightarrow> world \<Rightarrow> ResponseWriter \<times> world" where
  "getSnippets rw r w =
     (if length (URL_Path r) > 1 then
        (let keyName = drop 1 (URL_Path r) in
         case getSnippetFromKey keyName w of
           (Inl err, w1) \<Rightarrow>
             (http_Error rw (''Could not retrieve data: '' @ Error err) StatusInternalServerError, w1)
         | (Inr None, w1) \<Rightarrow> (http_NotFound rw, w1)
         | (Inr (Some s), w1) \<Rightarrow>
             (Write (Content s)
                (Header_Set ''Cache-Control'' ''public, max-age=3600''
                  (Header_Set ''Content-Type'' ''text/plain; charset=utf-8'' rw)), w1))
      else if devAppServer w then
        (Write (bytes testForm) (Header_Set ''Content-Type'' ''text/html; charset=utf-8'' rw), w)
      else (http_NotFound rw, w))"

text \<open>The function literal that \<^verbatim>\<open>postSnippets\<close> hands to \<^verbatim>\<open>RunInTransaction\<close>.\<close>

definition postSnippets_func1 :: "byte list \<Rightarrow> string \<Rightarrow> txfunc" where
  "postSnippets_func1 content keyName v t w =
     (case tx_Get (var_key v) t w of
        (Inr s, t1, w1) \<Rightarrow> (None, v\<lparr>var_s := s\<rparr>, t1, w1)
      | (Inl err, t1, w1) \<Rightarrow>
          if err \<noteq> ErrNoSuchEntity then (Some err, v, t1, w1)
          else
            (let s = \<lparr>CreatedAt = time_Now w1, Content = content\<rparr>;
                 k = NewKey kindName keyName
             in case tx_Put k s t1 w1 of
                  (Inl err, t2, w2) \<Rightarrow> (Some err, v\<lparr>var_s := s, var_key := None\<rparr>, t2, w2)
                | (Inr k', t2, w2) \<Rightarrow>
                    (None, v\<lparr>var_s := s, var_key := Some k', var_created := True\<rparr>, t2, w2)))"

text \<open>\<^verbatim>\<open>keyName := fmt.Sprintf("%x", sha256.Sum256(content))\<close>\<close>

definition keyName_of :: "byte list \<Rightarrow> string" where
  "keyName_of content = Sprintf_x (Sum256 content)"

definition postSnippets ::
  "Context \<Rightarrow> ResponseWriter \<Rightarrow> Request \<Rightarrow> world \<Rightarrow> ResponseWriter \<times> world" where
  "postSnippets ctx rw r w =
     (if URL_Path r \<noteq> ''/'' then (http_NotFound rw, w)
      else
        (case Body r of
           Inl err \<Rightarrow>
             (http_Error rw (''Could not read the request body: '' @ Error err) StatusBadRequest, w)
         | Inr content \<Rightarrow>
             if length content > maxContentSizeInBytes
             then (http_Error rw ''Request body is too big'' StatusBadRequest, w)
             else
               (let keyName = keyName_of content;
                    key = NewKey kindName keyName;
                    v0 = \<lparr>var_s = Snippet_zero, var_created = False, var_key = Some key\<rparr>
                in case RunInTransaction ctx (postSnippets_func1 content keyName) v0 w of
                     (Some err, v, w1) \<Rightarrow>
                       (http_Error rw (''Could not store the request body: '' @ Error err)
                          StatusBadRequest, w1)
                   | (None, v, w1) \<Rightarrow>
                       if var_created v then
                         (case memcache_Set keyName (var_s v) w1 of
                            (Some err, w2) \<Rightarrow>
                              (http_Error rw (''Could not store the request body: '' @ Error err)
                                 StatusBadRequest, w2)
                          | (None, w2) \<Rightarrow>
                              (WriteString keyName (WriteHeader StatusCreated rw), w2))
                       else (WriteString keyName (WriteHeader StatusOK rw), w1))))"

definition handleSnippets ::
  "Context \<Rightarrow> ResponseWriter \<Rightarrow> Request \<Rightarrow> world \<Rightarrow> ResponseWriter \<times> world" where
  "handleSnippets ctx rw r w =
     (let rw' = Header_Set ''Access-Control-Allow-Origin'' ''*'' rw in
      if Method r = ''HEAD'' \<or> Method r = ''GET'' then getSnippets rw' r w
      else if Method r = ''POST'' then postSnippets ctx rw' r w
      else (http_Error rw' (StatusText StatusMethodNotAllowed) StatusMethodNotAllowed, w))"

subsection \<open>Concrete worlds and requests\<close>

text \<open>
  An empty world with working backends, an unused response writer, a request served
  alone, and the two requests of the interface.
\<close>

definition world0 :: world where
  "world0 = \<lparr>memcache = Map.empty, datastore = Map.empty, faults = [], clock = 1500000000123456789,
     devAppServer = False\<rparr>"

definition rw0 :: ResponseWriter where
  "rw0 = \<lparr>header = Map.empty, status = None, written = []\<rparr>"

definition alone :: Context where
  "alone = \<lparr>others = []\<rparr>"

definition post :: "byte list \<Rightarrow> Request" where
  "post content = \<lparr>Method = ''POST'', URL_Path = ''/'', Body = Inr content\<rparr>"

definition get :: "string \<Rightarrow> Request" where
  "get keyName = \<lparr>Method = ''GET'', URL_Path = ''/'' @ keyName, Body = Inr []\<rparr>"

definition zeros :: "nat \<Rightarrow> byte list" where
  "zeros n = replicate n 0"

text \<open>
  A content, a world where it was stored some time ago and is not cached, and an error
  of the memcache service.
\<close>

definition abc :: "byte list" where
  "abc = [0x61, 0x62, 0x63]"

definition world_abc :: world where
  "world_abc = world0\<lparr>datastore :=
     [NewKey kindName (keyName_of abc) \<mapsto> \<lparr>CreatedAt = 1400000000, Content = abc\<rparr>]\<rparr>"

definition server_error :: error where
  "server_error = ErrBackend ''memcache: server error''"

text \<open>
  A request served while another request with the same content arrives: during the
  first attempt of its transaction the other request is served from start to end.
\<close>

definition racing :: "byte list \<Rightarrow> Context" where
  "racing content = \<lparr>others = [\<lambda>w. snd (postSnippets alone rw0 (post content) w)]\<rparr>"

section \<open>Properties\<close>

subsection \<open>The key\<close>

lemma length_round256: "length (round256 hs kw) = length hs"
  by (induction hs kw rule: round256.induct) (simp_all add: Let_def)

lemma length_foldl_round256: "length (foldl round256 hs kws) = length hs"
  by (induction kws arbitrary: hs) (simp_all add: length_round256)

lemma length_block256: "length (block256 hs p) = length hs"
  by (simp add: block256_def Let_def length_foldl_round256)

lemma length_foldl_block256: "length (foldl block256 hs ps) = length hs"
  by (induction ps arbitrary: hs) (simp_all add: length_block256)

lemma length_concat_const:
  "length (concat (map (\<lambda>h. map (g h) [0..<n]) hs)) = n * length hs"
  by (induction hs) simp_all

lemma length_Sum256: "length (Sum256 m) = 32"
  by (simp add: Sum256_def Let_def length_concat_const length_foldl_block256 init256_def)

lemma length_Sprintf_x: "length (Sprintf_x bs) = 2 * length bs"
  by (induction bs) (simp_all add: Sprintf_x_def)



lemma length_keyName_of: "length (keyName_of content) = 64"
  by (simp add: keyName_of_def length_Sprintf_x length_Sum256)


lemma keyName_of_two_blocks:
  "keyName_of (bytes ''abcdbcdecdefdefgefghfghighijhijkijkljklmklmnlmnomnopnopq'')
     = ''248d6a61d20638b8e5c026930c3e6039a33ce45964ff2167f6ecedd419db06c1''"
  by code_simp



subsection \<open>Backends that work: what a transaction served alone does\<close>

lemma next_fault_quiet: "faults w = [] \<Longrightarrow> next_fault w = (None, w)"
  by (simp add: next_fault_def)

lemma func1_absent:
  assumes "faults w = []" and "snapshot t (NewKey kindName kn) = None"
  shows "postSnippets_func1 content kn
           \<lparr>var_s = s0, var_created = c0, var_key = Some (NewKey kindName kn)\<rparr> t w =
    (None,
     \<lparr>var_s = \<lparr>CreatedAt = clock w, Content = content\<rparr>, var_created = True,
      var_key = Some (NewKey kindName kn)\<rparr>,
     t\<lparr>touched := NewKey kindName kn # NewKey kindName kn # touched t,
       writes := writes t @
         [(NewKey kindName kn, \<lparr>CreatedAt = clock w div 1000 * 1000, Content = content\<rparr>)]\<rparr>,
     w)"
  using assms
  by (simp add: postSnippets_func1_def tx_Get_def tx_Put_def next_fault_quiet time_Now_def
      Let_def datastore_save_def)

lemma func1_present:
  assumes "faults w = []" and "snapshot t (NewKey kindName kn) = Some s"
  shows "postSnippets_func1 content kn
           \<lparr>var_s = s0, var_created = c0, var_key = Some (NewKey kindName kn)\<rparr> t w =
    (None, \<lparr>var_s = s, var_created = c0, var_key = Some (NewKey kindName kn)\<rparr>,
     t\<lparr>touched := NewKey kindName kn # touched t\<rparr>, w)"
  using assms
  by (simp add: postSnippets_func1_def tx_Get_def next_fault_quiet)

lemma RunInTransaction_absent:
  assumes "faults w = []" and "others ctx = []" and "datastore w (NewKey kindName kn) = None"
  shows "RunInTransaction ctx (postSnippets_func1 content kn)
           \<lparr>var_s = s0, var_created = c0, var_key = Some (NewKey kindName kn)\<rparr> w =
    (None,
     \<lparr>var_s = \<lparr>CreatedAt = clock w, Content = content\<rparr>, var_created = True,
      var_key = Some (NewKey kindName kn)\<rparr>,
     w\<lparr>datastore := (datastore w)(NewKey kindName kn \<mapsto>
          \<lparr>CreatedAt = clock w div 1000 * 1000, Content = content\<rparr>)\<rparr>)"
  using assms
  by (simp add: RunInTransaction_def numeral_3_eq_3 RunTransactionOnce_def next_fault_quiet
      func1_absent commit_def)

lemma RunInTransaction_present:
  assumes "faults w = []" and "others ctx = []" and "datastore w (NewKey kindName kn) = Some s"
  shows "RunInTransaction ctx (postSnippets_func1 content kn)
           \<lparr>var_s = s0, var_created = c0, var_key = Some (NewKey kindName kn)\<rparr> w =
    (None, \<lparr>var_s = s, var_created = c0, var_key = Some (NewKey kindName kn)\<rparr>, w)"
  using assms
  by (simp add: RunInTransaction_def numeral_3_eq_3 RunTransactionOnce_def next_fault_quiet
      func1_present commit_def)

lemma postSnippets_new:
  assumes "URL_Path r = ''/''" and "Body r = Inr content"
    and "length content \<le> maxContentSizeInBytes"
    and "faults w = []" and "others ctx = []"
    and "datastore w (NewKey kindName (keyName_of content)) = None"
  shows "postSnippets ctx rw r w =
    (WriteString (keyName_of content) (WriteHeader StatusCreated rw),
     w\<lparr>datastore := (datastore w)(NewKey kindName (keyName_of content) \<mapsto>
            \<lparr>CreatedAt = clock w div 1000 * 1000, Content = content\<rparr>),
       memcache := (memcache w)(keyName_of content \<mapsto>
            \<lparr>CreatedAt = clock w, Content = content\<rparr>)\<rparr>)"
  using assms
  by (simp add: postSnippets_def Let_def RunInTransaction_absent memcache_Set_def
      next_fault_quiet)

lemma postSnippets_old:
  assumes "URL_Path r = ''/''" and "Body r = Inr content"
    and "length content \<le> maxContentSizeInBytes"
    and "faults w = []" and "others ctx = []"
    and "datastore w (NewKey kindName (keyName_of content)) = Some s"
  shows "postSnippets ctx rw r w = (WriteString (keyName_of content) (WriteHeader StatusOK rw), w)"
  using assms
  by (simp add: postSnippets_def Let_def RunInTransaction_present)

subsection \<open>What the response writer holds\<close>

lemma written_http_Error: "written (http_Error rw msg code) = written rw @ bytes msg @ [10]"
  by (simp add: http_Error_def WriteString_def Write_def WriteHeader_def Header_Set_def
      Let_def bytes_def)

lemma written_WriteString_WriteHeader:
  "written (WriteString str (WriteHeader code rw)) = written rw @ bytes str"
  by (simp add: WriteString_def Write_def WriteHeader_def Let_def)

lemma status_http_Error: "status rw = None \<Longrightarrow> status (http_Error rw msg code) = Some code"
  by (simp add: http_Error_def WriteString_def Write_def WriteHeader_def Header_Set_def Let_def)

lemma status_WriteString_WriteHeader:
  "status rw = None \<Longrightarrow> status (WriteString str (WriteHeader code rw)) = Some code"
  by (simp add: WriteString_def Write_def WriteHeader_def Let_def)

lemma post_ok: "URL_Path (post c) = ''/''" "Body (post c) = Inr c"
  by (simp_all add: post_def)

lemma quiet0: "faults world0 = []" "others alone = []" "status rw0 = None"
  by (simp_all add: world0_def alone_def rw0_def)

lemma length_zeros: "length (zeros n) = n"
  by (simp add: zeros_def)

subsection \<open>The size limit\<close>

lemma postSnippets_too_big:
  assumes "URL_Path r = ''/''" and "Body r = Inr content"
  shows "(postSnippets ctx rw r w = (http_Error rw ''Request body is too big'' StatusBadRequest, w))
          = (length content > 10240)"
proof (cases "length content > 10240")
  case True
  with assms show ?thesis
    by (simp add: postSnippets_def maxContentSizeInBytes_def)
next
  case False
  have len: "length (bytes (keyName_of content)) = 64"
    by (simp add: bytes_def length_keyName_of)
  have "written (fst (postSnippets ctx rw r w))
          \<noteq> written (http_Error rw ''Request body is too big'' StatusBadRequest)"
    using assms False len
    by (auto simp: postSnippets_def maxContentSizeInBytes_def Let_def written_http_Error
        written_WriteString_WriteHeader bytes_def
        split: prod.splits option.splits)
  with False show ?thesis by auto
qed

text \<open>
  C5. A write request to \<^verbatim>\<open>/\<close> whose body was read is answered with the rejection
  \<^verbatim>\<open>400 Request body is too big\<close> exactly when the body is longer than 10240 bytes, and
  then the world is as it was: nothing was asked of memcache or of the datastore (no
  outcome of \<open>faults\<close> was used). A body of at most 10240 bytes, with working backends and
  no other request in the way, is answered with 201 or 200.
\<close>

theorem postSnippets_TooLarge:
  assumes "URL_Path r = ''/''" and "Body r = Inr content"
  shows "((postSnippets ctx rw r w = (http_Error rw ''Request body is too big'' StatusBadRequest, w))
           = (length content > 10240))
       \<and> (length content \<le> 10240 \<and> faults w = [] \<and> others ctx = [] \<and> status rw = None
            \<longrightarrow> status (fst (postSnippets ctx rw r w)) = Some StatusCreated
              \<or> status (fst (postSnippets ctx rw r w)) = Some StatusOK)"
proof (intro conjI impI)
  show "(postSnippets ctx rw r w = (http_Error rw ''Request body is too big'' StatusBadRequest, w))
           = (length content > 10240)"
    using assms by (rule postSnippets_too_big)
next
  assume a: "length content \<le> 10240 \<and> faults w = [] \<and> others ctx = [] \<and> status rw = None"
  show "status (fst (postSnippets ctx rw r w)) = Some StatusCreated
      \<or> status (fst (postSnippets ctx rw r w)) = Some StatusOK"
  proof (cases "datastore w (NewKey kindName (keyName_of content))")
    case None
    with assms a show ?thesis
      by (simp add: postSnippets_new maxContentSizeInBytes_def status_WriteString_WriteHeader)
  next
    case (Some s)
    with assms a show ?thesis
      by (simp add: postSnippets_old maxContentSizeInBytes_def status_WriteString_WriteHeader)
  qed
qed

theorem postSnippets_TooLarge_witness:
  "postSnippets alone rw0 (post (zeros 10241)) world0
     = (http_Error rw0 ''Request body is too big'' StatusBadRequest, world0)
   \<and> postSnippets alone rw0 (post (zeros 10240)) world0
     \<noteq> (http_Error rw0 ''Request body is too big'' StatusBadRequest, world0)
   \<and> (status (fst (postSnippets alone rw0 (post (zeros 10240)) world0)) = Some StatusCreated
      \<or> status (fst (postSnippets alone rw0 (post (zeros 10240)) world0)) = Some StatusOK)"
  using postSnippets_TooLarge [of "post (zeros 10241)" "zeros 10241" alone rw0 world0, OF post_ok]
    postSnippets_TooLarge [of "post (zeros 10240)" "zeros 10240" alone rw0 world0, OF post_ok]
  by (simp add: length_zeros quiet0)

subsection \<open>Reading with working backends\<close>

lemma getSnippetFromKey_hit:
  assumes "faults w = []" and "memcache w k = Some s"
  shows "getSnippetFromKey k w = (Inr (Some s), w)"
  using assms by (simp add: getSnippetFromKey_def memcache_Get_def next_fault_quiet)

lemma getSnippetFromKey_miss_found:
  assumes "faults w = []" and "memcache w k = None"
    and "datastore w (NewKey kindName k) = Some s"
  shows "getSnippetFromKey k w = (Inr (Some s), w\<lparr>memcache := (memcache w)(k \<mapsto> s)\<rparr>)"
  using assms
  by (simp add: getSnippetFromKey_def memcache_Get_def datastore_Get_def memcache_Set_def
      next_fault_quiet)

lemma getSnippetFromKey_unknown:
  assumes "faults w = []" and "memcache w k = None"
    and "datastore w (NewKey kindName k) = None"
  shows "getSnippetFromKey k w = (Inr None, w)"
  using assms
  by (simp add: getSnippetFromKey_def memcache_Get_def datastore_Get_def next_fault_quiet)

lemma getSnippets_key:
  assumes "URL_Path r = ''/'' @ k" and "k \<noteq> []"
  shows "getSnippets rw r w =
    (case getSnippetFromKey k w of
       (Inl err, w1) \<Rightarrow>
         (http_Error rw (''Could not retrieve data: '' @ Error err) StatusInternalServerError, w1)
     | (Inr None, w1) \<Rightarrow> (http_NotFound rw, w1)
     | (Inr (Some s), w1) \<Rightarrow>
         (Write (Content s)
            (Header_Set ''Cache-Control'' ''public, max-age=3600''
              (Header_Set ''Content-Type'' ''text/plain; charset=utf-8'' rw)), w1))"
  using assms by (cases k) (simp_all add: getSnippets_def)

lemma written_Write_Header: "written (Write bs (Header_Set a b (Header_Set c d rw))) = written rw @ bs"
  by (simp add: Write_def WriteHeader_def Header_Set_def Let_def)

lemma status_Write_Header:
  "status rw = None \<Longrightarrow> status (Write bs (Header_Set a b (Header_Set c d rw))) = Some StatusOK"
  by (simp add: Write_def WriteHeader_def Header_Set_def Let_def)

subsection \<open>Writing\<close>

text \<open>
  C1. Two write requests with the same content, one after the other, with working
  backends and no other request in the way, the content (of at most 10240 bytes) not yet
  stored: both answer with the same key, the first with 201 (created), the second with
  200 (not created), whatever the clock shows at the second. The first adds one entity
  to the datastore, under the key and with the clock of the first request; the second
  leaves the datastore as it is.
\<close>

theorem put_twice:
  assumes "URL_Path r = ''/''" and "Body r = Inr content" and "length content \<le> 10240"
    and "faults w = []" and "others ctx = []" and "others ctx' = []"
    and "datastore w (NewKey kindName (keyName_of content)) = None"
    and "status rw = None"
  shows "case postSnippets ctx rw r w of (rw1, w1) \<Rightarrow>
          (case postSnippets ctx' rw r (w1\<lparr>clock := t'\<rparr>) of (rw2, w2) \<Rightarrow>
             status rw1 = Some StatusCreated \<and> status rw2 = Some StatusOK
           \<and> written rw1 = written rw @ bytes (keyName_of content)
           \<and> written rw2 = written rw @ bytes (keyName_of content)
           \<and> datastore w1 = (datastore w)(NewKey kindName (keyName_of content) \<mapsto>
                 \<lparr>CreatedAt = clock w div 1000 * 1000, Content = content\<rparr>)
           \<and> datastore w2 = datastore w1)"
proof -
  let ?K = "NewKey kindName (keyName_of content)"
  let ?s = "\<lparr>CreatedAt = clock w, Content = content\<rparr>"
  let ?d = "\<lparr>CreatedAt = clock w div 1000 * 1000, Content = content\<rparr>"
  let ?w1 = "w\<lparr>datastore := (datastore w)(?K \<mapsto> ?d),
               memcache := (memcache w)(keyName_of content \<mapsto> ?s)\<rparr>"
  have len: "length content \<le> maxContentSizeInBytes"
    using assms(3) by (simp add: maxContentSizeInBytes_def)
  have first: "postSnippets ctx rw r w =
      (WriteString (keyName_of content) (WriteHeader StatusCreated rw), ?w1)"
    using assms len by (simp add: postSnippets_new)
  have second: "postSnippets ctx' rw r (?w1\<lparr>clock := t'\<rparr>) =
      (WriteString (keyName_of content) (WriteHeader StatusOK rw), ?w1\<lparr>clock := t'\<rparr>)"
    using assms len by (intro postSnippets_old [where s = ?d]) simp_all
  show ?thesis
    using assms(8)
    by (simp add: first second status_WriteString_WriteHeader written_WriteString_WriteHeader)
qed

theorem put_twice_witness:
  "case postSnippets alone rw0 (post [0x61, 0x62, 0x63]) world0 of (rw1, w1) \<Rightarrow>
     (case postSnippets alone rw0 (post [0x61, 0x62, 0x63]) (w1\<lparr>clock := 1500000060987654321\<rparr>) of
        (rw2, w2) \<Rightarrow>
          status rw1 = Some StatusCreated \<and> status rw2 = Some StatusOK
        \<and> written rw1 = bytes (keyName_of [0x61, 0x62, 0x63])
        \<and> written rw2 = bytes (keyName_of [0x61, 0x62, 0x63])
        \<and> datastore w1 = [NewKey kindName (keyName_of [0x61, 0x62, 0x63]) \<mapsto>
              \<lparr>CreatedAt = 1500000000123456000, Content = [0x61, 0x62, 0x63]\<rparr>]
        \<and> datastore w2 = datastore w1)"
proof -
  have "datastore world0 (NewKey kindName (keyName_of [0x61, 0x62, 0x63])) = None"
    and "datastore world0 = Map.empty" and "clock world0 = 1500000000123456789"
    and "written rw0 = []"
    by (simp_all add: world0_def rw0_def)
  with put_twice [of "post [0x61, 0x62, 0x63]" "[0x61, 0x62, 0x63]" world0 alone alone rw0
      1500000060987654321, OF post_ok]
  show ?thesis
    by (simp add: quiet0)
qed

text \<open>
  C3. After a write request with a content of at most 10240 bytes (working backends, no
  other request in the way, and nothing else stored or cached under the key of the
  content), reading the key that the response holds finds a snippet with that content:
  straight away, after memcache has lost its entries, and over HTTP, where the response
  is 200 with the content as its body.
\<close>

theorem put_get_roundtrip:
  assumes "URL_Path r = ''/''" and "Body r = Inr content" and "length content \<le> 10240"
    and "faults w = []" and "others ctx = []"
    and "\<forall>s. datastore w (NewKey kindName (keyName_of content)) = Some s \<longrightarrow> Content s = content"
    and "\<forall>s. memcache w (keyName_of content) = Some s \<longrightarrow> Content s = content"
    and "URL_Path r' = ''/'' @ keyName_of content"
  shows "case postSnippets ctx rw r w of (rw1, w1) \<Rightarrow>
           written rw1 = written rw @ bytes (keyName_of content)
         \<and> (\<exists>s w2. getSnippetFromKey (keyName_of content) w1 = (Inr (Some s), w2)
                \<and> Content s = content)
         \<and> (\<exists>s w2. getSnippetFromKey (keyName_of content) (w1\<lparr>memcache := Map.empty\<rparr>)
                  = (Inr (Some s), w2) \<and> Content s = content)
         \<and> written (fst (getSnippets rw' r' w1)) = written rw' @ content
         \<and> (status rw' = None \<longrightarrow> status (fst (getSnippets rw' r' w1)) = Some StatusOK)"
proof -
  let ?kn = "keyName_of content"
  let ?K = "NewKey kindName ?kn"
  have len: "length content \<le> maxContentSizeInBytes"
    using assms(3) by (simp add: maxContentSizeInBytes_def)
  have ne: "?kn \<noteq> []"
    using length_keyName_of [of content] by auto
  obtain rw1 w1 where p: "postSnippets ctx rw r w = (rw1, w1)"
    by (cases "postSnippets ctx rw r w")
  have after: "written rw1 = written rw @ bytes ?kn \<and> faults w1 = []
      \<and> (\<exists>s. datastore w1 ?K = Some s \<and> Content s = content)
      \<and> (\<forall>s. memcache w1 ?kn = Some s \<longrightarrow> Content s = content)"
  proof (cases "datastore w ?K")
    case None
    from postSnippets_new [OF assms(1,2) len assms(4,5) None, of rw] p
    have "rw1 = WriteString ?kn (WriteHeader StatusCreated rw)"
      and "w1 = w\<lparr>datastore := (datastore w)(?K \<mapsto>
                    \<lparr>CreatedAt = clock w div 1000 * 1000, Content = content\<rparr>),
                memcache := (memcache w)(?kn \<mapsto> \<lparr>CreatedAt = clock w, Content = content\<rparr>)\<rparr>"
      by simp_all
    then show ?thesis
      using assms(4) by (simp add: written_WriteString_WriteHeader)
  next
    case (Some s)
    from postSnippets_old [OF assms(1,2) len assms(4,5) Some, of rw] p
    have "rw1 = WriteString ?kn (WriteHeader StatusOK rw)" and "w1 = w"
      by simp_all
    then show ?thesis
      using assms(4,6,7) Some by (simp add: written_WriteString_WriteHeader)
  qed
  then have body: "written rw1 = written rw @ bytes ?kn"
    and q: "faults w1 = []"
    and store: "\<exists>s. datastore w1 ?K = Some s \<and> Content s = content"
    and cache: "\<forall>s. memcache w1 ?kn = Some s \<longrightarrow> Content s = content"
    by blast+
  from store obtain s0 where s0: "datastore w1 ?K = Some s0" "Content s0 = content"
    by blast
  have g: "\<exists>s w2. getSnippetFromKey ?kn w1 = (Inr (Some s), w2) \<and> Content s = content"
  proof (cases "memcache w1 ?kn")
    case None
    from getSnippetFromKey_miss_found [OF q None s0(1)] s0(2) show ?thesis
      by blast
  next
    case (Some s)
    from getSnippetFromKey_hit [OF q Some] cache Some show ?thesis
      by blast
  qed
  then obtain s w2 where gs: "getSnippetFromKey ?kn w1 = (Inr (Some s), w2)" "Content s = content"
    by blast
  have h: "getSnippets rw' r' w1 =
      (Write content (Header_Set ''Cache-Control'' ''public, max-age=3600''
         (Header_Set ''Content-Type'' ''text/plain; charset=utf-8'' rw')), w2)"
    using gs by (simp add: getSnippets_key [OF assms(8) ne])
  have e: "\<exists>s w2. getSnippetFromKey ?kn (w1\<lparr>memcache := Map.empty\<rparr>) = (Inr (Some s), w2)
      \<and> Content s = content"
    using getSnippetFromKey_miss_found [of "w1\<lparr>memcache := Map.empty\<rparr>" ?kn s0] q s0
    by simp
  show ?thesis
    using body g e by (simp add: p h written_Write_Header status_Write_Header)
qed

lemma get_ok: "URL_Path (get k) = ''/'' @ k"
  by (simp add: get_def)

theorem put_get_roundtrip_witness:
  "case postSnippets alone rw0 (post [0x61, 0x62, 0x63]) world0 of (rw1, w1) \<Rightarrow>
     written rw1 = bytes (keyName_of [0x61, 0x62, 0x63])
   \<and> (\<exists>s w2. getSnippetFromKey (keyName_of [0x61, 0x62, 0x63]) w1 = (Inr (Some s), w2)
          \<and> Content s = [0x61, 0x62, 0x63])
   \<and> written (fst (getSnippets rw0 (get (keyName_of [0x61, 0x62, 0x63])) w1)) = [0x61, 0x62, 0x63]
   \<and> status (fst (getSnippets rw0 (get (keyName_of [0x61, 0x62, 0x63])) w1)) = Some StatusOK"
proof -
  have "datastore world0 k = None" and "memcache world0 k' = None" and "written rw0 = []"
    for k k'
    by (simp_all add: world0_def rw0_def)
  with put_get_roundtrip [of "post [0x61, 0x62, 0x63]" "[0x61, 0x62, 0x63]" world0 alone
      "get (keyName_of [0x61, 0x62, 0x63])" rw0 rw0, OF post_ok]
  show ?thesis
    by (simp add: quiet0 get_ok split: prod.splits)
qed

subsection \<open>Reading\<close>

lemma next_fault_cases:
  "next_fault w = (f, w') \<Longrightarrow> (f = None \<or> f \<in> set (faults w)) \<and> set (faults w') \<subseteq> set (faults w)"
  by (cases "faults w") (auto simp: next_fault_def)

lemma getSnippetFromKey_error:
  assumes "getSnippetFromKey k w = (Inl err, w')"
  shows "Some err \<in> set (faults w)"
proof -
  obtain f1 w1 where n1: "next_fault w = (f1, w1)"
    by (cases "next_fault w")
  obtain f2 w2 where n2: "next_fault w1 = (f2, w2)"
    by (cases "next_fault w1")
  obtain f3 w3 where n3: "next_fault w2 = (f3, w3)"
    by (cases "next_fault w2")
  note c1 = next_fault_cases [OF n1] and c2 = next_fault_cases [OF n2]
    and c3 = next_fault_cases [OF n3]
  from assms have "Some err = f1 \<or> Some err = f2 \<or> Some err = f3"
    by (auto simp: getSnippetFromKey_def memcache_Get_def datastore_Get_def memcache_Set_def
        n1 n2 n3 Let_def split: option.splits if_splits)
  with c1 c2 c3 show ?thesis
    by auto
qed

text \<open>
  C9. With working backends, a key that neither memcache nor the datastore holds is
  answered with \<^verbatim>\<open>(nil, nil)\<close> by \<^verbatim>\<open>getSnippetFromKey\<close> and with 404 by
  \<^verbatim>\<open>getSnippets\<close>, the world unchanged. A 500 is only given when a backend call failed.
\<close>

theorem get_unknown_NotFound:
  "(faults w = [] \<and> memcache w k = None \<and> datastore w (NewKey kindName k) = None
      \<longrightarrow> getSnippetFromKey k w = (Inr None, w)
        \<and> (k \<noteq> [] \<and> URL_Path r = ''/'' @ k \<longrightarrow> getSnippets rw r w = (http_NotFound rw, w)))
   \<and> (status rw = None \<longrightarrow> status (http_NotFound rw) = Some 404)
   \<and> (status rw = None \<and> status (fst (getSnippets rw r w)) = Some 500
      \<longrightarrow> (\<exists>err. Some err \<in> set (faults w)))"
proof (intro conjI impI)
  assume a: "faults w = [] \<and> memcache w k = None \<and> datastore w (NewKey kindName k) = None"
  then show u: "getSnippetFromKey k w = (Inr None, w)"
    by (simp add: getSnippetFromKey_unknown)
  assume "k \<noteq> [] \<and> URL_Path r = ''/'' @ k"
  then show "getSnippets rw r w = (http_NotFound rw, w)"
    using u by (simp add: getSnippets_key [of r k])
next
  assume "status rw = None"
  then show "status (http_NotFound rw) = Some 404"
    by (simp add: http_NotFound_def status_http_Error StatusNotFound_def)
next
  assume a: "status rw = None \<and> status (fst (getSnippets rw r w)) = Some 500"
  show "\<exists>err. Some err \<in> set (faults w)"
  proof (cases "getSnippetFromKey (drop 1 (URL_Path r)) w")
    case (Pair res w')
    show ?thesis
    proof (cases res)
      case (Inl err)
      with Pair getSnippetFromKey_error show ?thesis
        by blast
    next
      case (Inr so)
      with Pair a have False
        by (auto simp: getSnippets_def Let_def http_NotFound_def status_http_Error
            status_Write_Header StatusNotFound_def StatusOK_def Write_def WriteHeader_def
            Header_Set_def
            split: option.splits if_splits)
      then show ?thesis ..
    qed
  qed
qed

theorem get_unknown_NotFound_witness:
  "getSnippetFromKey ''0123'' world0 = (Inr None, world0)
   \<and> getSnippets rw0 (get ''0123'') world0 = (http_NotFound rw0, world0)
   \<and> status (http_NotFound rw0) = Some 404
   \<and> status (fst (getSnippets rw0 (get ''0123'')
        (world0\<lparr>faults := [Some (ErrBackend ''memcache: server error'')]\<rparr>))) = Some 500
   \<and> (\<exists>err. Some err \<in> set (faults (world0\<lparr>faults := [Some (ErrBackend ''memcache: server error'')]\<rparr>)))"
proof -
  have a: "memcache world0 ''0123'' = None" "datastore world0 (NewKey kindName ''0123'') = None"
    by (simp_all add: world0_def)
  have b: "status (fst (getSnippets rw0 (get ''0123'')
        (world0\<lparr>faults := [Some (ErrBackend ''memcache: server error'')]\<rparr>))) = Some 500"
    by (simp add: getSnippets_def get_def getSnippetFromKey_def memcache_Get_def next_fault_def
        status_http_Error quiet0 StatusInternalServerError_def)
  show ?thesis
    using get_unknown_NotFound [of world0 "''0123''" "get ''0123''" rw0]
      get_unknown_NotFound [of "world0\<lparr>faults := [Some (ErrBackend ''memcache: server error'')]\<rparr>"
        "''0123''" "get ''0123''" rw0] a b
    by (simp add: quiet0 get_ok)
qed

subsection \<open>The empty content\<close>

lemma keyName_of_empty:
  "keyName_of [] = ''e3b0c44298fc1c149afbf4c8996fb92427ae41e4649b934ca495991b7852b855''"
  by code_simp

text \<open>
  C10. A write request with an empty body passes the size check and, with working
  backends and no other request in the way, is stored like any other content: under
  the key \<^verbatim>\<open>e3b0c442...7852b855\<close>, the 64 hexadecimal characters of the SHA-256 of the
  empty byte sequence, with answer 201; or found there, with answer 200.
\<close>

theorem post_empty_content:
  assumes "URL_Path r = ''/''" and "Body r = Inr []" and "faults w = []" and "others ctx = []"
  shows "length ([] :: byte list) \<le> maxContentSizeInBytes
      \<and> keyName_of [] = ''e3b0c44298fc1c149afbf4c8996fb92427ae41e4649b934ca495991b7852b855''
      \<and> length (keyName_of []) = 64
      \<and> (datastore w (NewKey kindName (keyName_of [])) = None \<longrightarrow>
           postSnippets ctx rw r w =
             (WriteString ''e3b0c44298fc1c149afbf4c8996fb92427ae41e4649b934ca495991b7852b855''
                (WriteHeader StatusCreated rw),
              w\<lparr>datastore := (datastore w)
                   ((''Snippet'', ''e3b0c44298fc1c149afbf4c8996fb92427ae41e4649b934ca495991b7852b855'')
                      \<mapsto> \<lparr>CreatedAt = clock w div 1000 * 1000, Content = []\<rparr>),
                memcache := (memcache w)
                   (''e3b0c44298fc1c149afbf4c8996fb92427ae41e4649b934ca495991b7852b855''
                      \<mapsto> \<lparr>CreatedAt = clock w, Content = []\<rparr>)\<rparr>))
      \<and> (datastore w (NewKey kindName (keyName_of [])) \<noteq> None \<longrightarrow>
           postSnippets ctx rw r w =
             (WriteString ''e3b0c44298fc1c149afbf4c8996fb92427ae41e4649b934ca495991b7852b855''
                (WriteHeader StatusOK rw), w))"
proof (intro conjI impI)
  show "length ([] :: byte list) \<le> maxContentSizeInBytes"
    by simp
  show "keyName_of [] = ''e3b0c44298fc1c149afbf4c8996fb92427ae41e4649b934ca495991b7852b855''"
    by (rule keyName_of_empty)
  show "length (keyName_of []) = 64"
    by (rule length_keyName_of)
next
  assume "datastore w (NewKey kindName (keyName_of [])) = None"
  from postSnippets_new [OF assms(1,2) _ assms(3,4) this, of rw]
  show "postSnippets ctx rw r w =
             (WriteString ''e3b0c44298fc1c149afbf4c8996fb92427ae41e4649b934ca495991b7852b855''
                (WriteHeader StatusCreated rw),
              w\<lparr>datastore := (datastore w)
                   ((''Snippet'', ''e3b0c44298fc1c149afbf4c8996fb92427ae41e4649b934ca495991b7852b855'')
                      \<mapsto> \<lparr>CreatedAt = clock w div 1000 * 1000, Content = []\<rparr>),
                memcache := (memcache w)
                   (''e3b0c44298fc1c149afbf4c8996fb92427ae41e4649b934ca495991b7852b855''
                      \<mapsto> \<lparr>CreatedAt = clock w, Content = []\<rparr>)\<rparr>)"
    unfolding keyName_of_empty NewKey_def kindName_def by simp
next
  assume "datastore w (NewKey kindName (keyName_of [])) \<noteq> None"
  then obtain s where "datastore w (NewKey kindName (keyName_of [])) = Some s"
    by blast
  from postSnippets_old [OF assms(1,2) _ assms(3,4) this, of rw]
  show "postSnippets ctx rw r w =
             (WriteString ''e3b0c44298fc1c149afbf4c8996fb92427ae41e4649b934ca495991b7852b855''
                (WriteHeader StatusOK rw), w)"
    unfolding keyName_of_empty by simp
qed

theorem post_empty_content_witness:
  "postSnippets alone rw0 (post []) world0 =
     (WriteString ''e3b0c44298fc1c149afbf4c8996fb92427ae41e4649b934ca495991b7852b855''
        (WriteHeader StatusCreated rw0),
      world0\<lparr>datastore := [(''Snippet'', ''e3b0c44298fc1c149afbf4c8996fb92427ae41e4649b934ca495991b7852b855'')
                   \<mapsto> \<lparr>CreatedAt = 1500000000123456000, Content = []\<rparr>],
        memcache := [''e3b0c44298fc1c149afbf4c8996fb92427ae41e4649b934ca495991b7852b855''
                   \<mapsto> \<lparr>CreatedAt = 1500000000123456789, Content = []\<rparr>]\<rparr>)"
proof -
  have "datastore world0 = Map.empty" and "memcache world0 = Map.empty"
    and "clock world0 = 1500000000123456789"
    by (simp_all add: world0_def)
  with post_empty_content [of "post []" world0 alone rw0, OF post_ok quiet0(1,2)]
  show ?thesis
    by simp
qed

subsection \<open>Reading when memcache fails\<close>

lemma keyName_of_nonempty: "keyName_of c \<noteq> []"
  using length_keyName_of [of c] by auto

lemma world_abc_simps:
  "memcache world_abc k = None"
  "datastore world_abc (NewKey kindName (keyName_of abc)) = Some \<lparr>CreatedAt = 1400000000, Content = abc\<rparr>"
  "world_abc\<lparr>faults := []\<rparr> = world_abc"
  "faults world_abc = []"
  by (simp_all add: world_abc_def world0_def)

text \<open>
  C6 as the specification states it does not hold. The content is in the datastore and
  the call to memcache fails with an error that is not a miss: \<^verbatim>\<open>getSnippetFromKey\<close>
  returns that error (main.go, \<^verbatim>\<open>else if err != memcache.ErrCacheMiss\<close>) and the
  response is 500; the datastore is not asked.
\<close>

theorem get_cache_unreachable_counterexample:
  "datastore world_abc (NewKey kindName (keyName_of abc)) = Some \<lparr>CreatedAt = 1400000000, Content = abc\<rparr>
   \<and> getSnippetFromKey (keyName_of abc) (world_abc\<lparr>faults := [Some server_error]\<rparr>)
       = (Inl server_error, world_abc)
   \<and> getSnippets rw0 (get (keyName_of abc)) (world_abc\<lparr>faults := [Some server_error]\<rparr>)
       = (http_Error rw0 ''Could not retrieve data: memcache: server error'' 500, world_abc)"
  by (simp add: getSnippets_key [OF get_ok keyName_of_nonempty] getSnippetFromKey_def
      memcache_Get_def next_fault_def world_abc_simps server_error_def
      StatusInternalServerError_def)

text \<open>
  C6, amended. An error of the memcache lookup other than \<^verbatim>\<open>ErrCacheMiss\<close> is returned
  to the caller, 500 at the interface, and no further backend call is made. Only a miss
  (the entry is absent, or memcache says \<^verbatim>\<open>ErrCacheMiss\<close>) goes on to the datastore,
  whose snippet is then returned and cached.
\<close>

theorem get_cache_unreachable:
  "(faults w = Some err # fs \<and> err \<noteq> ErrCacheMiss \<longrightarrow>
      getSnippetFromKey k w = (Inl err, w\<lparr>faults := fs\<rparr>)
      \<and> (k \<noteq> [] \<and> URL_Path r = ''/'' @ k \<longrightarrow>
            getSnippets rw r w =
              (http_Error rw (''Could not retrieve data: '' @ Error err) StatusInternalServerError,
               w\<lparr>faults := fs\<rparr>)))
   \<and> ((faults w = [Some ErrCacheMiss] \<or> (faults w = [] \<and> memcache w k = None))
        \<and> datastore w (NewKey kindName k) = Some s \<longrightarrow>
      getSnippetFromKey k w = (Inr (Some s), w\<lparr>faults := [], memcache := (memcache w)(k \<mapsto> s)\<rparr>))"
proof (intro conjI impI)
  assume a: "faults w = Some err # fs \<and> err \<noteq> ErrCacheMiss"
  then show g: "getSnippetFromKey k w = (Inl err, w\<lparr>faults := fs\<rparr>)"
    by (simp add: getSnippetFromKey_def memcache_Get_def next_fault_def)
  assume "k \<noteq> [] \<and> URL_Path r = ''/'' @ k"
  then show "getSnippets rw r w =
      (http_Error rw (''Could not retrieve data: '' @ Error err) StatusInternalServerError,
       w\<lparr>faults := fs\<rparr>)"
    using g by (simp add: getSnippets_key [of r k])
next
  assume "(faults w = [Some ErrCacheMiss] \<or> (faults w = [] \<and> memcache w k = None))
        \<and> datastore w (NewKey kindName k) = Some s"
  then show "getSnippetFromKey k w
      = (Inr (Some s), w\<lparr>faults := [], memcache := (memcache w)(k \<mapsto> s)\<rparr>)"
    by (auto simp: getSnippetFromKey_def memcache_Get_def datastore_Get_def memcache_Set_def
        next_fault_def)
qed

theorem get_cache_unreachable_witness:
  "getSnippetFromKey (keyName_of abc) (world_abc\<lparr>faults := [Some ErrInvalidKey, None]\<rparr>)
     = (Inl ErrInvalidKey, world_abc\<lparr>faults := [None]\<rparr>)
   \<and> getSnippets rw0 (get (keyName_of abc)) (world_abc\<lparr>faults := [Some ErrInvalidKey, None]\<rparr>)
     = (http_Error rw0 ''Could not retrieve data: datastore: invalid key'' 500,
        world_abc\<lparr>faults := [None]\<rparr>)
   \<and> getSnippetFromKey (keyName_of abc) (world_abc\<lparr>faults := [Some ErrCacheMiss]\<rparr>)
     = (Inr (Some \<lparr>CreatedAt = 1400000000, Content = abc\<rparr>),
        world_abc\<lparr>memcache := [keyName_of abc \<mapsto> \<lparr>CreatedAt = 1400000000, Content = abc\<rparr>]\<rparr>)"
proof -
  have m: "memcache world_abc = Map.empty"
    by (simp add: world_abc_def world0_def)
  show ?thesis
    using get_cache_unreachable [of "world_abc\<lparr>faults := [Some ErrInvalidKey, None]\<rparr>"
        ErrInvalidKey "[None]" "keyName_of abc" "get (keyName_of abc)" rw0]
      get_cache_unreachable [of "world_abc\<lparr>faults := [Some ErrCacheMiss]\<rparr>"
        ErrCacheMiss "[]" "keyName_of abc" "get (keyName_of abc)" rw0
        "\<lparr>CreatedAt = 1400000000, Content = abc\<rparr>"]
    by (simp add: world_abc_simps m get_ok keyName_of_nonempty StatusInternalServerError_def)
qed

text \<open>
  C7 as the specification states it does not hold. The content is not cached and is
  found in the datastore, and the \<^verbatim>\<open>memcache.Gob.Set\<close> that follows fails:
  \<^verbatim>\<open>getSnippetFromKey\<close> returns the error, not the snippet, and the response is 500.
\<close>

theorem get_warming_failure_counterexample:
  "memcache world_abc (keyName_of abc) = None
   \<and> datastore world_abc (NewKey kindName (keyName_of abc))
       = Some \<lparr>CreatedAt = 1400000000, Content = abc\<rparr>
   \<and> getSnippetFromKey (keyName_of abc) (world_abc\<lparr>faults := [None, None, Some server_error]\<rparr>)
       = (Inl server_error, world_abc)
   \<and> getSnippets rw0 (get (keyName_of abc)) (world_abc\<lparr>faults := [None, None, Some server_error]\<rparr>)
       = (http_Error rw0 ''Could not retrieve data: memcache: server error'' 500, world_abc)"
  by (simp add: getSnippets_key [OF get_ok keyName_of_nonempty] getSnippetFromKey_def
      memcache_Get_def datastore_Get_def memcache_Set_def next_fault_def world_abc_simps
      server_error_def StatusInternalServerError_def)

text \<open>
  C7, amended. When the lookup in memcache misses, the datastore holds the snippet and
  the following \<^verbatim>\<open>memcache.Gob.Set\<close> fails, \<^verbatim>\<open>getSnippetFromKey\<close> returns the error
  of the set instead of the snippet, and the response is 500.
\<close>

theorem get_warming_failure:
  assumes "faults w = None # None # Some err # fs" and "memcache w k = None"
    and "datastore w (NewKey kindName k) = Some s"
  shows "getSnippetFromKey k w = (Inl err, w\<lparr>faults := fs\<rparr>)
       \<and> (k \<noteq> [] \<and> URL_Path r = ''/'' @ k \<longrightarrow>
            getSnippets rw r w =
              (http_Error rw (''Could not retrieve data: '' @ Error err) StatusInternalServerError,
               w\<lparr>faults := fs\<rparr>))"
proof -
  have g: "getSnippetFromKey k w = (Inl err, w\<lparr>faults := fs\<rparr>)"
    using assms
    by (simp add: getSnippetFromKey_def memcache_Get_def datastore_Get_def memcache_Set_def
        next_fault_def)
  then show ?thesis
    by (simp add: getSnippets_key [of r k])
qed

theorem get_warming_failure_witness:
  "getSnippetFromKey (keyName_of abc)
       (world_abc\<lparr>faults := [None, None, Some (ErrBackend ''memcache: value too large''), None]\<rparr>)
     = (Inl (ErrBackend ''memcache: value too large''), world_abc\<lparr>faults := [None]\<rparr>)
   \<and> getSnippets rw0 (get (keyName_of abc))
       (world_abc\<lparr>faults := [None, None, Some (ErrBackend ''memcache: value too large''), None]\<rparr>)
     = (http_Error rw0 ''Could not retrieve data: memcache: value too large'' 500,
        world_abc\<lparr>faults := [None]\<rparr>)"
  using get_warming_failure [of
      "world_abc\<lparr>faults := [None, None, Some (ErrBackend ''memcache: value too large''), None]\<rparr>"
      "ErrBackend ''memcache: value too large''" "[None]" "keyName_of abc"
      "\<lparr>CreatedAt = 1400000000, Content = abc\<rparr>" "get (keyName_of abc)" rw0]
  by (simp add: world_abc_simps get_ok keyName_of_nonempty StatusInternalServerError_def)

subsection \<open>Writing: the cache after the transaction\<close>

text \<open>
  C8. When the transaction of a write request ends without error: if \<^verbatim>\<open>created\<close> is
  true, \<^verbatim>\<open>memcache.Gob.Set\<close> is called with the snippet, and its failure is answered with
  \<^verbatim>\<open>400 Could not store the request body\<close>, its success with 201 and the key; if
  \<^verbatim>\<open>created\<close> is false the answer is 200 and the key, and nothing is asked of memcache
  (the world is as the transaction left it).
\<close>

theorem put_cache_set:
  assumes "URL_Path r = ''/''" and "Body r = Inr content" and "length content \<le> 10240"
    and "RunInTransaction ctx (postSnippets_func1 content (keyName_of content))
           \<lparr>var_s = Snippet_zero, var_created = False,
            var_key = Some (NewKey kindName (keyName_of content))\<rparr> w = (None, v, w1)"
  shows "(var_created v \<and> faults w1 = Some err # fs \<longrightarrow>
            postSnippets ctx rw r w =
              (http_Error rw (''Could not store the request body: '' @ Error err) StatusBadRequest,
               w1\<lparr>faults := fs\<rparr>))
       \<and> (var_created v \<and> (faults w1 = [] \<or> faults w1 = None # fs) \<longrightarrow>
            postSnippets ctx rw r w =
              (WriteString (keyName_of content) (WriteHeader StatusCreated rw),
               w1\<lparr>faults := tl (faults w1),
                  memcache := (memcache w1)(keyName_of content \<mapsto> var_s v)\<rparr>))
       \<and> (\<not> var_created v \<longrightarrow>
            postSnippets ctx rw r w =
              (WriteString (keyName_of content) (WriteHeader StatusOK rw), w1))"
  using assms
  by (auto simp: postSnippets_def maxContentSizeInBytes_def Let_def memcache_Set_def
      next_fault_def)

theorem put_cache_set_witness:
  "postSnippets alone rw0 (post abc)
      (world0\<lparr>faults := [None, None, None, None, Some server_error]\<rparr>)
     = (http_Error rw0 ''Could not store the request body: memcache: server error'' 400,
        world0\<lparr>datastore := [NewKey kindName (keyName_of abc) \<mapsto>
                   \<lparr>CreatedAt = 1500000000123456000, Content = abc\<rparr>]\<rparr>)
   \<and> postSnippets alone rw0 (post abc) world_abc
     = (WriteString (keyName_of abc) (WriteHeader StatusOK rw0), world_abc)"
proof -
  let ?v0 = "\<lparr>var_s = Snippet_zero, var_created = False,
              var_key = Some (NewKey kindName (keyName_of abc))\<rparr>"
  have len: "length abc \<le> 10240"
    by (simp add: abc_def)
  have t1: "RunInTransaction alone (postSnippets_func1 abc (keyName_of abc)) ?v0
        (world0\<lparr>faults := [None, None, None, None, Some server_error]\<rparr>)
      = (None,
         \<lparr>var_s = \<lparr>CreatedAt = 1500000000123456789, Content = abc\<rparr>, var_created = True,
          var_key = Some (NewKey kindName (keyName_of abc))\<rparr>,
         world0\<lparr>faults := [Some server_error],
           datastore := [NewKey kindName (keyName_of abc) \<mapsto>
              \<lparr>CreatedAt = 1500000000123456000, Content = abc\<rparr>]\<rparr>)"
    by (simp add: RunInTransaction_def numeral_3_eq_3 RunTransactionOnce_def next_fault_def
        postSnippets_func1_def tx_Get_def tx_Put_def commit_def time_Now_def Let_def
        alone_def world0_def datastore_save_def)
  have t2: "RunInTransaction alone (postSnippets_func1 abc (keyName_of abc)) ?v0 world_abc
      = (None,
         \<lparr>var_s = \<lparr>CreatedAt = 1400000000, Content = abc\<rparr>, var_created = False,
          var_key = Some (NewKey kindName (keyName_of abc))\<rparr>, world_abc)"
    by (simp add: RunInTransaction_present world_abc_simps quiet0)
  show ?thesis
    using put_cache_set [OF post_ok len t1, of server_error "[]" rw0]
      put_cache_set [OF post_ok len t2, of server_error "[]" rw0]
    by (simp add: server_error_def StatusBadRequest_def world0_def)
qed

subsection \<open>Two requests with the same content at the same time\<close>

lemma postSnippets_racing:
  assumes "URL_Path r = ''/''" and "Body r = Inr content"
    and "length content \<le> maxContentSizeInBytes"
    and "faults w = []"
    and "datastore w (NewKey kindName (keyName_of content)) = None"
  shows "postSnippets (racing content) rw r w =
    (WriteString (keyName_of content) (WriteHeader StatusCreated rw),
     w\<lparr>datastore := (datastore w)(NewKey kindName (keyName_of content) \<mapsto>
            \<lparr>CreatedAt = clock w div 1000 * 1000, Content = content\<rparr>),
       memcache := (memcache w)(keyName_of content \<mapsto>
            \<lparr>CreatedAt = clock w div 1000 * 1000, Content = content\<rparr>)\<rparr>)"
proof -
  let ?kn = "keyName_of content"
  let ?K = "NewKey kindName ?kn"
  let ?s = "\<lparr>CreatedAt = clock w, Content = content\<rparr>"
  let ?d = "\<lparr>CreatedAt = clock w div 1000 * 1000, Content = content\<rparr>"
  let ?w1 = "w\<lparr>datastore := (datastore w)(?K \<mapsto> ?d), memcache := (memcache w)(?kn \<mapsto> ?s)\<rparr>"
  let ?f = "postSnippets_func1 content ?kn"
  let ?other = "\<lambda>w. snd (postSnippets alone rw0 (post content) w)"
  have other: "?other w = ?w1"
    using assms by (simp add: postSnippets_new [OF post_ok] quiet0)
  have first: "RunTransactionOnce ?other ?f
        \<lparr>var_s = Snippet_zero, var_created = False, var_key = Some ?K\<rparr> w
      = ((True, Some ErrConcurrentTransaction),
         \<lparr>var_s = ?s, var_created = True, var_key = Some ?K\<rparr>, ?w1)"
    using assms(4,5)
    by (simp add: RunTransactionOnce_def next_fault_quiet func1_absent other commit_def)
  have second: "RunTransactionOnce id ?f \<lparr>var_s = ?s, var_created = True, var_key = Some ?K\<rparr> ?w1
      = ((False, None), \<lparr>var_s = ?d, var_created = True, var_key = Some ?K\<rparr>, ?w1)"
    using assms(4)
    by (simp add: RunTransactionOnce_def next_fault_quiet func1_present commit_def)
  have tx: "RunInTransaction (racing content) ?f
        \<lparr>var_s = Snippet_zero, var_created = False, var_key = Some ?K\<rparr> w
      = (None, \<lparr>var_s = ?d, var_created = True, var_key = Some ?K\<rparr>, ?w1)"
    by (simp add: RunInTransaction_def racing_def numeral_3_eq_3 first second)
  show ?thesis
    using assms(1-4)
    by (simp add: postSnippets_def Let_def tx memcache_Set_def next_fault_quiet)
qed

text \<open>
  C2. Two write requests with the same content on an empty datastore. The transaction
  function of the first runs (no entity, so it puts one and sets \<^verbatim>\<open>created = true\<close>);
  then the second request is served whole and answers 201; the commit of the first
  fails with \<^verbatim>\<open>ErrConcurrentTransaction\<close> and \<^verbatim>\<open>RunInTransaction\<close> calls the function
  again. This time it finds the entity of the second request and returns nil, but
  \<^verbatim>\<open>created\<close>, assigned outside the function and never reset, is still true: the first
  request answers 201 too. One entity is stored, and both requests report that they
  created it.
\<close>

theorem concurrent_put_both_created:
  "status (fst (postSnippets alone rw0 (post abc) world0)) = Some StatusCreated
   \<and> status (fst (postSnippets (racing abc) rw0 (post abc) world0)) = Some StatusCreated
   \<and> datastore (snd (postSnippets (racing abc) rw0 (post abc) world0))
       = [NewKey kindName (keyName_of abc) \<mapsto>
            \<lparr>CreatedAt = 1500000000123456000, Content = abc\<rparr>]"
proof -
  have len: "length abc \<le> maxContentSizeInBytes"
    by (simp add: abc_def maxContentSizeInBytes_def)
  have e: "datastore world0 (NewKey kindName (keyName_of abc)) = None"
    and d: "datastore world0 = Map.empty" and c: "clock world0 = 1500000000123456789"
    by (simp_all add: world0_def)
  show ?thesis
    by (simp add: postSnippets_new [OF post_ok len quiet0(1,2) e]
        postSnippets_racing [OF post_ok len quiet0(1) e]
        status_WriteString_WriteHeader quiet0 d c)
qed

end
